theory Spec2Isabelle
  imports Complex_Main "HOL-Library.Sublist" "HOL-Library.AList" "HOL-Library.Multiset"
begin

section \<open>Python values and errors\<close>

text \<open>
  The module \<^verbatim>\<open>asr/aspire.py\<close> prepares the ASpIRE (Fisher) corpus: it cuts
  recordings into utterance clips, normalises transcripts, decodes phone alignments,
  joins the three into manifests and serves the utterances as a dataset.

  Every exception the modelled code can raise is a value of \<open>py_error\<close>; a function
  that can raise returns \<open>py_error + 'a\<close>, with \<open>Inl\<close> for the exception.
\<close>

datatype py_error =
    NameError | UnboundLocalError | ValueError | IndexError | ZeroDivisionError
  | TypeError | OverflowError | WaveError | SystemExit | OtherError

text \<open>
  A Python \<open>str\<close> is modelled as a \<open>string\<close> whose characters are the code points
  below 256. \<open>str.lower\<close> on these maps \<open>A\<close>..\<open>Z\<close> and the capital letters of
  Latin-1 (192..214 and 216..222) to the code point 32 above, and nothing else.
\<close>

definition py_lower :: "char \<Rightarrow> char" where
  "py_lower c =
     (let n = (of_char c :: nat)
      in if (65 \<le> n \<and> n \<le> 90) \<or> (192 \<le> n \<and> n \<le> 214) \<or> (216 \<le> n \<and> n \<le> 222)
         then char_of (n + 32) else c)"

definition lower :: "string \<Rightarrow> string" where
  "lower s = map py_lower s"

section \<open>Transcript normalisation\<close>

text \<open>
  \<^verbatim>\<open>
  def strip_text(text):
      mask = "abcdefghijklmnopqrstuvwxyz'- "
      stripped = [x for x in text.lower() if x in mask]
      return ''.join(stripped)
  \<close>
\<close>

definition mask :: string where
  "mask = ''abcdefghijklmnopqrstuvwxyz'' @ [CHR 0x27] @ ''- ''"

definition strip_text :: "string \<Rightarrow> string" where
  "strip_text text = [x \<leftarrow> lower text. x \<in> set mask]"

section \<open>Frame arithmetic\<close>

text \<open>
  \<^verbatim>\<open>
  WIN_SAMP_SIZE = p.SAMPLE_RATE * p.WINDOW_SIZE
  WIN_SAMP_SHIFT = p.SAMPLE_RATE * p.WINDOW_SHIFT
  SAMPLE_MARGIN = WIN_SAMP_SHIFT * p.FRAME_MARGIN  # samples

  def _samples2frames(samples):
      num_samples = samples - 2 * SAMPLE_MARGIN
      return int((num_samples - WIN_SAMP_SIZE) // WIN_SAMP_SHIFT + 1)
  \<close>
  The module \<^verbatim>\<open>utils/params.py\<close> that fixes \<open>SAMPLE_RATE\<close>, \<open>WINDOW_SIZE\<close>,
  \<open>WINDOW_SHIFT\<close> and \<open>FRAME_MARGIN\<close> is not among the sources, so the three derived
  constants are parameters, collected in a record. They are numbers of samples and are
  taken as integers. Python's \<open>//\<close> rounds towards minus infinity, as \<open>div\<close> on
  \<open>int\<close> does, and raises \<open>ZeroDivisionError\<close> for a zero divisor; \<open>int\<close> of the
  integral quotient plus one changes nothing.
\<close>

record params =
  WIN_SAMP_SIZE :: int
  WIN_SAMP_SHIFT :: int
  SAMPLE_MARGIN :: int

definition samples2frames :: "params \<Rightarrow> int \<Rightarrow> py_error + int" where
  "samples2frames p samples =
     (let num_samples = samples - 2 * SAMPLE_MARGIN p
      in if WIN_SAMP_SHIFT p = 0 then Inl ZeroDivisionError
         else Inr ((num_samples - WIN_SAMP_SIZE p) div WIN_SAMP_SHIFT p + 1))"

text \<open>
  The values used in the examples: 8 kHz audio, a window of 25 ms, a shift of 10 ms
  and a margin of 10 frames.
\<close>

definition params_8k :: params where
  "params_8k = \<lparr>WIN_SAMP_SIZE = 200, WIN_SAMP_SHIFT = 80, SAMPLE_MARGIN = 800\<rparr>"

section \<open>Strings, integers and paths\<close>

text \<open>
  \<open>str.strip()\<close> removes the white space at both ends; below 256 the white space
  of Python is 9..13, 28..32, 133 and 160.
\<close>

definition py_isspace :: "char \<Rightarrow> bool" where
  "py_isspace c =
     (let n = (of_char c :: nat)
      in (9 \<le> n \<and> n \<le> 13) \<or> (28 \<le> n \<and> n \<le> 32) \<or> n = 133 \<or> n = 160)"

definition strip :: "string \<Rightarrow> string" where
  "strip s = rev (dropWhile py_isspace (rev (dropWhile py_isspace s)))"

definition is_digit :: "char \<Rightarrow> bool" where
  "is_digit c = (let n = (of_char c :: nat) in 48 \<le> n \<and> n \<le> 57)"

definition digit_val :: "char \<Rightarrow> int" where
  "digit_val c = int (of_char c) - 48"

text \<open>
  \<open>int(s)\<close> on a string: white space at both ends is ignored, one sign is allowed,
  then come decimal digits, where single underscores may stand between two digits.
  Anything else raises \<open>ValueError\<close>.
\<close>

fun digits_value :: "int \<Rightarrow> string \<Rightarrow> int option" where
  "digits_value acc [] = Some acc"
| "digits_value acc [c] = (if is_digit c then Some (10 * acc + digit_val c) else None)"
| "digits_value acc (c # d # cs) =
     (if is_digit c then digits_value (10 * acc + digit_val c) (d # cs)
      else if c = CHR ''_'' \<and> is_digit d then digits_value acc (d # cs)
      else None)"

definition unsigned_value :: "string \<Rightarrow> py_error + int" where
  "unsigned_value body =
     (case body of
        [] \<Rightarrow> Inl ValueError
      | c # cs \<Rightarrow>
          if is_digit c
          then (case digits_value 0 body of Some v \<Rightarrow> Inr v | None \<Rightarrow> Inl ValueError)
          else Inl ValueError)"

definition py_int :: "string \<Rightarrow> py_error + int" where
  "py_int s =
     (case strip s of
        [] \<Rightarrow> Inl ValueError
      | c # cs \<Rightarrow>
          if c = CHR ''-'' then map_sum id uminus (unsigned_value cs)
          else if c = CHR ''+'' then unsigned_value cs
          else unsigned_value (c # cs))"

text \<open>The slice \<open>s[i:j]\<close> for \<open>0 \<le> i \<le> j\<close>; a slice never raises.\<close>

definition slice :: "nat \<Rightarrow> nat \<Rightarrow> 'a list \<Rightarrow> 'a list" where
  "slice i j s = take (j - i) (drop i s)"

text \<open>\<open>str(n)\<close> for an integer, as an f-string prints it.\<close>

fun str_nat :: "nat \<Rightarrow> string" where
  "str_nat n =
     (if n < 10 then [char_of (48 + n)] else str_nat (n div 10) @ [char_of (48 + n mod 10)])"

definition str_int :: "int \<Rightarrow> string" where
  "str_int i = (if i < 0 then CHR ''-'' # str_nat (nat (- i)) else str_nat (nat i))"

text \<open>
  \<open>s.replace(old, new)\<close> replaces the occurrences of \<open>old\<close> from left to right,
  without overlap; for an empty \<open>old\<close> it puts \<open>new\<close> around every character.
\<close>

function py_replace :: "string \<Rightarrow> string \<Rightarrow> string \<Rightarrow> string" where
  "py_replace old new [] = (if old = [] then new else [])"
| "py_replace old new (c # cs) =
     (if old = [] then new @ c # py_replace old new cs
      else if take (length old) (c # cs) = old
           then new @ py_replace old new (drop (length old) (c # cs))
           else c # py_replace old new cs)"
  by pat_completeness auto
termination
  by (relation "measure (\<lambda>(old, new, s). length s)") auto

text \<open>\<open>s.split(sep)\<close> for a separator of one character.\<close>

fun split_sep :: "char \<Rightarrow> string \<Rightarrow> string list" where
  "split_sep c [] = [[]]"
| "split_sep c (x # xs) =
     (if x = c then [] # split_sep c xs
      else (case split_sep c xs of w # ws \<Rightarrow> (x # w) # ws | [] \<Rightarrow> [[x]]))"

text \<open>
  A path is the string \<open>str(path)\<close>, on a POSIX system. \<open>Path(a, b, ...)\<close> and
  \<open>Path(a) / b\<close> start again at the last argument that begins with a slash; the root is
  \<open>//\<close> for exactly two leading slashes and \<open>/\<close> otherwise; the components of the
  arguments are what stands between the slashes, without the empty ones and the dots;
  the string of a path with no root and no component is a dot. \<open>Path.stem\<close> is the last
  component without its last suffix.
\<close>

definition path_root :: "string \<Rightarrow> string" where
  "path_root s =
     (if take 2 s = ''//'' \<and> take 3 s \<noteq> ''///'' then ''//''
      else if take 1 s = ''/'' then ''/'' else [])"

definition path_parts :: "string \<Rightarrow> string list" where
  "path_parts s = [c \<leftarrow> split_sep (CHR ''/'') s. c \<noteq> [] \<and> c \<noteq> ''.'']"

fun join_parts :: "string list \<Rightarrow> string" where
  "join_parts [] = []"
| "join_parts [c] = c"
| "join_parts (c # d # cs) = c @ ''/'' @ join_parts (d # cs)"

definition Path :: "string list \<Rightarrow> string" where
  "Path args =
     (case fold (\<lambda>a (anchor, parts).
                   if take 1 a = ''/'' then (path_root a, path_parts a)
                   else (anchor, parts @ path_parts a)) args ([], []) of
        (anchor, parts) \<Rightarrow>
          if anchor = [] \<and> parts = [] then ''.'' else anchor @ join_parts parts)"

definition path_name :: "string \<Rightarrow> string" where
  "path_name p = rev (takeWhile (\<lambda>c. c \<noteq> CHR ''/'') (rev p))"

definition path_stem :: "string \<Rightarrow> string" where
  "path_stem p =
     (let name = path_name p;
          suffix = takeWhile (\<lambda>c. c \<noteq> CHR ''.'') (rev name)
      in if CHR ''.'' \<in> set name \<and> suffix \<noteq> [] \<and> Suc (length suffix) < length name
         then take (length name - Suc (length suffix)) name
         else name)"

text \<open>
  The file of an utterance: \<^verbatim>\<open>str(Path(Path(target_dir) / uttid[6:9], uttid + ext))\<close>.
\<close>

definition utt_file :: "string \<Rightarrow> string \<Rightarrow> string \<Rightarrow> string" where
  "utt_file target_dir uttid ext = Path [Path [target_dir, slice 6 9 uttid], uttid @ ext]"

section \<open>Manifest building\<close>

text \<open>
  One line of \<^verbatim>\<open>train.csv\<close> or \<^verbatim>\<open>dev.csv\<close> holds the six fields of a record;
  a manifest file is modelled as the list of the records written to it, and
  \<open>csv_line\<close> is the text that \<^verbatim>\<open>f.write\<close> receives for a record.
\<close>

record manifest_record =
  uttid :: string
  wav_file :: string
  samples :: int
  phn_file :: string
  num_frms :: int
  txt_file :: string

definition csv_line :: "manifest_record \<Rightarrow> string" where
  "csv_line r =
     uttid r @ '','' @ wav_file r @ '','' @ str_int (samples r) @ '','' @ phn_file r @ '',''
       @ str_int (num_frms r) @ '','' @ txt_file r @ [CHR 0x0A]"

record csv_files =
  train_csv :: "manifest_record list"
  dev_csv :: "manifest_record list"

definition no_records :: csv_files where
  "no_records = \<lparr>train_csv = [], dev_csv = []\<rparr>"

text \<open>
  The dictionary that the loop of \<^verbatim>\<open>prepare_data\<close> runs over is the list of its
  items, in the order of insertion; the two dictionaries that are only looked up are maps.
\<close>

type_synonym wav_manifest = "(string \<times> string \<times> int) list"
type_synonym txt_manifest = "string \<rightharpoonup> string \<times> string"
type_synonym phn_manifest = "string \<rightharpoonup> string \<times> int \<times> int list"

text \<open>
  \<^verbatim>\<open>
  for k, v in train_wav_manifest.items():
      if not k in train_txt_manifest:
          continue
      if not k in phn_manifest:
          continue
      wav_file, samples = v
      txt_file, _ = train_txt_manifest[k]
      phn_file, num_frms, _ = phn_manifest[k]
      if 0 < int(k[6:11]) < 60:
          f2.write(f"{k},{wav_file},{samples},{phn_file},{num_frms},{txt_file}\n")
      else:
          f1.write(f"{k},{wav_file},{samples},{phn_file},{num_frms},{txt_file}\n")
  \<close>
  In \<^verbatim>\<open>prepare_data\<close> the assignments of \<^verbatim>\<open>train_wav_manifest\<close> and of
  \<^verbatim>\<open>phn_manifest\<close> are commented out, so both are names of the module's globals,
  looked up when the statement that uses them runs: a name is \<open>Some\<close> dictionary when it
  is bound and \<open>None\<close> when it is not, and the use of an unbound name raises
  \<open>NameError\<close>. \<^verbatim>\<open>train_txt_manifest\<close> is the result of \<^verbatim>\<open>get_transcripts\<close>.
\<close>

definition prepare_data_step ::
  "txt_manifest \<Rightarrow> phn_manifest option \<Rightarrow> string \<times> string \<times> int \<Rightarrow> csv_files
     \<Rightarrow> py_error + csv_files" where
  "prepare_data_step train_txt_manifest phn_manifest item st =
     (case item of (k, wav, n) \<Rightarrow>
        (case train_txt_manifest k of
           None \<Rightarrow> Inr st
         | Some (txt, _) \<Rightarrow>
             (case phn_manifest of
                None \<Rightarrow> Inl NameError
              | Some phns \<Rightarrow>
                  (case phns k of
                     None \<Rightarrow> Inr st
                   | Some (phn, frms, _) \<Rightarrow>
                       (case py_int (slice 6 11 k) of
                          Inl e \<Rightarrow> Inl e
                        | Inr code \<Rightarrow>
                            let r = \<lparr>uttid = k, wav_file = wav, samples = n, phn_file = phn,
                                     num_frms = frms, txt_file = txt\<rparr>
                            in if 0 < code \<and> code < 60
                               then Inr (st\<lparr>dev_csv := dev_csv st @ [r]\<rparr>)
                               else Inr (st\<lparr>train_csv := train_csv st @ [r]\<rparr>))))))"

fun prepare_data_loop ::
  "txt_manifest \<Rightarrow> phn_manifest option \<Rightarrow> wav_manifest \<Rightarrow> csv_files \<Rightarrow> py_error + csv_files"
  where
  "prepare_data_loop txts phns [] st = Inr st"
| "prepare_data_loop txts phns (item # items) st =
     (case prepare_data_step txts phns item st of
        Inl e \<Rightarrow> Inl e
      | Inr st' \<Rightarrow> prepare_data_loop txts phns items st')"

definition prepare_data ::
  "wav_manifest option \<Rightarrow> txt_manifest \<Rightarrow> phn_manifest option \<Rightarrow> py_error + csv_files" where
  "prepare_data train_wav_manifest train_txt_manifest phn_manifest =
     (case train_wav_manifest of
        None \<Rightarrow> Inl NameError
      | Some wavs \<Rightarrow> prepare_data_loop train_txt_manifest phn_manifest wavs no_records)"

text \<open>
  \<^verbatim>\<open>
  def get_num_lines(filename):
      with open(filename, "r+") as f:
          buf = mmap.mmap(f.fileno(), 0)
          lines = 0
          while buf.readline():
              lines += 1
      return lines
  \<close>
  on the bytes of the file: an empty file cannot be mapped (\<open>ValueError\<close>); otherwise
  \<open>readline\<close> returns one line for each newline and one more for what follows the last
  newline, if anything does.
\<close>

definition get_num_lines :: "string \<Rightarrow> py_error + int" where
  "get_num_lines buf =
     (if buf = [] then Inl ValueError
      else Inr (int (count_list buf (CHR 0x0A)) + (if last buf = CHR 0x0A then 0 else 1)))"

text \<open>
  What \<^verbatim>\<open>reconstruct_manifest\<close> sees of the file system: the bytes of the files that
  exist, and the number of frames that the \<open>wave\<close> module reads from the header of an
  audio file (or the exception it raises).
\<close>

record filesystem =
  files :: "string \<rightharpoonup> string"
  getnframes :: "string \<Rightarrow> py_error + int"

definition path_exists :: "filesystem \<Rightarrow> string \<Rightarrow> bool" where
  "path_exists fs p = (files fs p \<noteq> None)"

text \<open>
  \<^verbatim>\<open>
  for wav_file in Path(target_dir).glob("**/*.wav"):
      uttid = wav_file.stem
      txt_file = str(wav_file).replace("wav", "txt")
      phn_file = str(wav_file).replace("wav", "phn")
      if not Path(txt_file).exists() or not Path(phn_file).exists():
          continue
      with wave.openfp(str(wav_file), "rb") as wav:
          samples = wav.getnframes()
      num_frms = get_num_lines(phn_file)
      if 0 < int(uttid[6:11]) < 60:
          f2.write(f"{uttid},{wav_file},{samples},{phn_file},{num_frms},{txt_file}\n")
      else:
          f1.write(f"{uttid},{wav_file},{samples},{phn_file},{num_frms},{txt_file}\n")
  \<close>
  The paths that the glob yields are an argument.
\<close>

definition reconstruct_step :: "filesystem \<Rightarrow> string \<Rightarrow> csv_files \<Rightarrow> py_error + csv_files" where
  "reconstruct_step fs wav st =
     (let utt = path_stem wav;
          txt = py_replace ''wav'' ''txt'' wav;
          phn = py_replace ''wav'' ''phn'' wav
      in if \<not> path_exists fs txt \<or> \<not> path_exists fs phn then Inr st
         else (case getnframes fs wav of
                 Inl e \<Rightarrow> Inl e
               | Inr n \<Rightarrow>
                   (case get_num_lines (the (files fs phn)) of
                      Inl e \<Rightarrow> Inl e
                    | Inr frms \<Rightarrow>
                        (case py_int (slice 6 11 utt) of
                           Inl e \<Rightarrow> Inl e
                         | Inr code \<Rightarrow>
                             let r = \<lparr>uttid = utt, wav_file = wav, samples = n, phn_file = phn,
                                      num_frms = frms, txt_file = txt\<rparr>
                             in if 0 < code \<and> code < 60
                                then Inr (st\<lparr>dev_csv := dev_csv st @ [r]\<rparr>)
                                else Inr (st\<lparr>train_csv := train_csv st @ [r]\<rparr>)))))"

fun reconstruct_loop :: "filesystem \<Rightarrow> string list \<Rightarrow> csv_files \<Rightarrow> py_error + csv_files" where
  "reconstruct_loop fs [] st = Inr st"
| "reconstruct_loop fs (wav # wavs) st =
     (case reconstruct_step fs wav st of
        Inl e \<Rightarrow> Inl e
      | Inr st' \<Rightarrow> reconstruct_loop fs wavs st')"

definition reconstruct_manifest :: "filesystem \<Rightarrow> string list \<Rightarrow> py_error + csv_files" where
  "reconstruct_manifest fs wavs = reconstruct_loop fs wavs no_records"

text \<open>
  To state what the loops write: the record that the join builds for an item of the
  audio manifest, whether the id of an item is in the two other manifests, and the
  split rule of the specification, under which a code in the open interval from 0 to 60
  goes to the dev manifest and any other code to the train manifest.
\<close>

definition joined_record :: "txt_manifest \<Rightarrow> phn_manifest \<Rightarrow> string \<times> string \<times> int \<Rightarrow> manifest_record" where
  "joined_record txts phns item =
     (case item of (k, wav, n) \<Rightarrow>
        \<lparr>uttid = k, wav_file = wav, samples = n, phn_file = fst (the (phns k)),
         num_frms = fst (snd (the (phns k))), txt_file = fst (the (txts k))\<rparr>)"

definition in_all_three :: "txt_manifest \<Rightarrow> phn_manifest \<Rightarrow> string \<times> string \<times> int \<Rightarrow> bool" where
  "in_all_three txts phns item = (fst item \<in> dom txts \<and> fst item \<in> dom phns)"

datatype split = Train | Dev

definition split_of_code :: "int \<Rightarrow> split" where
  "split_of_code code = (if 0 < code \<and> code < 60 then Dev else Train)"

definition write_record :: "split \<Rightarrow> manifest_record \<Rightarrow> csv_files \<Rightarrow> csv_files" where
  "write_record s r st =
     (case s of Dev \<Rightarrow> st\<lparr>dev_csv := dev_csv st @ [r]\<rparr> | Train \<Rightarrow> st\<lparr>train_csv := train_csv st @ [r]\<rparr>)"




text \<open>
  To state what the two functions write as a whole: whether the code of an utterance id
  parses and lies in the open interval from 0 to 60; whether the two derived paths of an
  audio file exist; whether the frames of the audio file, the lines of the label file and
  the code of the file's stem can be read; and the record that the reconstruction builds
  for an audio file.
\<close>
definition routes_dev :: "string \<Rightarrow> bool" where
  "routes_dev k =
     (case py_int (slice 6 11 k) of Inl e \<Rightarrow> False | Inr code \<Rightarrow> 0 < code \<and> code < 60)"

definition has_companions :: "filesystem \<Rightarrow> string \<Rightarrow> bool" where
  "has_companions fs wav =
     (path_exists fs (py_replace ''wav'' ''txt'' wav) \<and> path_exists fs (py_replace ''wav'' ''phn'' wav))"

definition readable :: "filesystem \<Rightarrow> string \<Rightarrow> bool" where
  "readable fs wav =
     (\<not> isl (getnframes fs wav)
      \<and> \<not> isl (get_num_lines (the (files fs (py_replace ''wav'' ''phn'' wav))))
      \<and> \<not> isl (py_int (slice 6 11 (path_stem wav))))"

definition rebuilt_record :: "filesystem \<Rightarrow> string \<Rightarrow> manifest_record" where
  "rebuilt_record fs wav =
     \<lparr>uttid = path_stem wav, wav_file = wav, samples = projr (getnframes fs wav),
      phn_file = py_replace ''wav'' ''phn'' wav,
      num_frms = projr (get_num_lines (the (files fs (py_replace ''wav'' ''phn'' wav)))),
      txt_file = py_replace ''wav'' ''txt'' wav\<rparr>"


text \<open>
  Manifests, and a target directory after the preparation, for four utterances with the
  codes 30, 0, 60 and 200.
\<close>

definition codes_wavs :: wav_manifest where
  "codes_wavs =
     [(''fe_03_00030-A'', ''/data/000/fe_03_00030-A.wav'', 24000),
      (''fe_03_00000-A'', ''/data/000/fe_03_00000-A.wav'', 24000),
      (''fe_03_00060-A'', ''/data/000/fe_03_00060-A.wav'', 24000),
      (''fe_03_00200-A'', ''/data/002/fe_03_00200-A.wav'', 24000)]"

definition codes_txts :: txt_manifest where
  "codes_txts =
     [''fe_03_00030-A'' \<mapsto> (''/data/000/fe_03_00030-A.txt'', ''hello''),
      ''fe_03_00000-A'' \<mapsto> (''/data/000/fe_03_00000-A.txt'', ''hello''),
      ''fe_03_00060-A'' \<mapsto> (''/data/000/fe_03_00060-A.txt'', ''hello''),
      ''fe_03_00200-A'' \<mapsto> (''/data/002/fe_03_00200-A.txt'', ''hello'')]"

definition codes_phns :: phn_manifest where
  "codes_phns =
     [''fe_03_00030-A'' \<mapsto> (''/data/000/fe_03_00030-A.phn'', 2, [1, 7]),
      ''fe_03_00000-A'' \<mapsto> (''/data/000/fe_03_00000-A.phn'', 2, [1, 7]),
      ''fe_03_00060-A'' \<mapsto> (''/data/000/fe_03_00060-A.phn'', 2, [1, 7]),
      ''fe_03_00200-A'' \<mapsto> (''/data/002/fe_03_00200-A.phn'', 2, [1, 7])]"

definition codes_paths :: "string list" where
  "codes_paths =
     [''/data/000/fe_03_00030-A.wav'',
      ''/data/000/fe_03_00000-A.wav'',
      ''/data/000/fe_03_00060-A.wav'',
      ''/data/002/fe_03_00200-A.wav'']"

definition codes_fs :: filesystem where
  "codes_fs =
     \<lparr>files =
        [''/data/000/fe_03_00030-A.wav'' \<mapsto> ''RIFF'',
         ''/data/000/fe_03_00030-A.txt'' \<mapsto> ''hello'' @ [CHR 0x0A],
         ''/data/000/fe_03_00030-A.phn'' \<mapsto> [CHR ''1'', CHR 0x0A, CHR ''7'', CHR 0x0A],
         ''/data/000/fe_03_00000-A.wav'' \<mapsto> ''RIFF'',
         ''/data/000/fe_03_00000-A.txt'' \<mapsto> ''hello'' @ [CHR 0x0A],
         ''/data/000/fe_03_00000-A.phn'' \<mapsto> [CHR ''1'', CHR 0x0A, CHR ''7'', CHR 0x0A],
         ''/data/000/fe_03_00060-A.wav'' \<mapsto> ''RIFF'',
         ''/data/000/fe_03_00060-A.txt'' \<mapsto> ''hello'' @ [CHR 0x0A],
         ''/data/000/fe_03_00060-A.phn'' \<mapsto> [CHR ''1'', CHR 0x0A, CHR ''7'', CHR 0x0A],
         ''/data/002/fe_03_00200-A.wav'' \<mapsto> ''RIFF'',
         ''/data/002/fe_03_00200-A.txt'' \<mapsto> ''hello'' @ [CHR 0x0A],
         ''/data/002/fe_03_00200-A.phn'' \<mapsto> [CHR ''1'', CHR 0x0A, CHR ''7'', CHR 0x0A]],
      getnframes = (\<lambda>p. if p \<in> set codes_paths then Inr 24000 else Inl WaveError)\<rparr>"

text \<open>
  A target directory whose own name contains \<open>wav\<close>: first with the three files of an
  utterance only, then with a text file and a label file of the same name under the
  directories \<^verbatim>\<open>/data/txt\<close> and \<^verbatim>\<open>/data/phn\<close> as well.
\<close>

definition wav_dir_fs :: filesystem where
  "wav_dir_fs =
     \<lparr>files =
        [''/data/wav/000/fe_03_00030-A.wav'' \<mapsto> ''RIFF'',
         ''/data/wav/000/fe_03_00030-A.txt'' \<mapsto> ''hello world'' @ [CHR 0x0A],
         ''/data/wav/000/fe_03_00030-A.phn'' \<mapsto> [CHR ''1'', CHR 0x0A, CHR ''7'', CHR 0x0A]],
      getnframes = (\<lambda>p. if p = ''/data/wav/000/fe_03_00030-A.wav'' then Inr 24000
                         else Inl WaveError)\<rparr>"

definition wav_dir_fs2 :: filesystem where
  "wav_dir_fs2 =
     wav_dir_fs\<lparr>files := (files wav_dir_fs)
        (''/data/txt/000/fe_03_00030-A.txt'' \<mapsto> ''other'' @ [CHR 0x0A],
         ''/data/phn/000/fe_03_00030-A.phn'' \<mapsto> [CHR ''2'', CHR 0x0A])\<rparr>"

section \<open>Segment extraction\<close>

text \<open>
  Times in seconds are floats, finite doubles. A float is modelled as the real number
  that it stands for, and each operation of the source on floats as the exact operation
  followed by the rounding of IEEE 754: to the nearest number with 53 significant bits,
  to the even one of two nearest, with the exponent kept above that of the subnormal
  numbers; a result beyond the doubles is an infinity, \<open>None\<close>. \<open>float_exp a\<close> is the
  exponent \<open>e\<close> with \<open>2 ^ e \<le> a < 2 ^ (e + 1)\<close> of a positive \<open>a\<close>.
\<close>

fun bit_length :: "nat \<Rightarrow> nat" where
  "bit_length n = (if n = 0 then 0 else Suc (bit_length (n div 2)))"

definition float_exp :: "real \<Rightarrow> int" where
  "float_exp a =
     (if 1 \<le> a then int (bit_length (nat \<lfloor>a\<rfloor>)) - 1
      else - int (bit_length (nat (\<lceil>1 / a\<rceil> - 1))))"

definition pow2 :: "int \<Rightarrow> real" where
  "pow2 e = (if 0 \<le> e then 2 ^ nat e else 1 / 2 ^ nat (- e))"

definition round_half_even :: "real \<Rightarrow> int" where
  "round_half_even q =
     (let n = \<lfloor>q\<rfloor>; r = q - of_int n
      in if r < 1 / 2 then n else if 1 / 2 < r then n + 1 else if even n then n else n + 1)"

definition round_double :: "real \<Rightarrow> real option" where
  "round_double x =
     (if x = 0 then Some 0
      else let ulp = pow2 (max (float_exp \<bar>x\<bar>) (- 1022) - 52);
               r = of_int (round_half_even (\<bar>x\<bar> / ulp)) * ulp
           in if 2 ^ 1024 \<le> r then None else Some (sgn x * r))"

text \<open>
  An integer that meets a float in an operation is converted to a float, which raises
  \<open>OverflowError\<close> when it is too large. \<open>int(x)\<close> on a finite float rounds towards
  zero, exactly, and raises \<open>OverflowError\<close> on an infinity.
\<close>

definition float_of_int :: "int \<Rightarrow> py_error + real" where
  "float_of_int i =
     (case round_double (of_int i) of None \<Rightarrow> Inl OverflowError | Some x \<Rightarrow> Inr x)"

definition py_int_float :: "real \<Rightarrow> int" where
  "py_int_float x = (if 0 \<le> x then \<lfloor>x\<rfloor> else \<lceil>x\<rceil>)"

text \<open>
  A decoded recording, as the \<open>wave\<close> module reads it: the frame rate and the sample
  frames; \<open>getnframes\<close> is their number. \<open>setpos\<close> raises when the position is
  not within the recording, and \<open>readframes\<close> from the position reads the frames that are
  left when it is asked for a negative number of them.
\<close>

record 'a wave_read =
  framerate :: int
  frames :: "'a list"

definition readframes :: "'a list \<Rightarrow> nat \<Rightarrow> int \<Rightarrow> 'a list" where
  "readframes fr pos n =
     (if n = 0 then [] else if n < 0 then drop pos fr else take (nat n) (drop pos fr))"

text \<open>
  The state of \<^verbatim>\<open>split_wav\<close>: the audio files written so far, each with its frames,
  and the manifest, a dictionary in the order of insertion.
\<close>

record 'a split_state =
  clips :: "(string \<times> 'a list) list"
  manifest :: wav_manifest

text \<open>
  \<^verbatim>\<open>
  for uttid, start, end in segments[wavid]:
      fs, fe = int(fr * start - SAMPLE_MARGIN), int(fr * end + SAMPLE_MARGIN)
      if fs < 0 or fe > nf:
          continue
      wav.rewind()
      wav.setpos(fs)
      signal = wav.readframes(fe - fs)
      tar_dir = Path(target_dir) / uttid[6:9]
      Path(tar_dir).mkdir(mode=0o755, parents=True, exist_ok=True)
      wav_file = str(Path(tar_dir, uttid + ".wav"))
      with wave.open(wav_file, "wb") as split_wav:
          split_wav.setparams(wav.getparams())
          split_wav.writeframes(signal)
      manifest[uttid] = (wav_file, fe - fs)
  \<close>
\<close>

definition seg_bound ::
  "(real \<Rightarrow> real \<Rightarrow> real) \<Rightarrow> int \<Rightarrow> real \<Rightarrow> int \<Rightarrow> py_error + int" where
  "seg_bound op fr t margin =
     (case float_of_int fr of
        Inl e \<Rightarrow> Inl e
      | Inr f \<Rightarrow>
          (case round_double (f * t) of
             None \<Rightarrow> Inl OverflowError
           | Some x \<Rightarrow>
               (case float_of_int margin of
                  Inl e \<Rightarrow> Inl e
                | Inr m \<Rightarrow>
                    (case round_double (op x m) of
                       None \<Rightarrow> Inl OverflowError
                     | Some y \<Rightarrow> Inr (py_int_float y)))))"

definition seg_fs :: "params \<Rightarrow> int \<Rightarrow> real \<Rightarrow> py_error + int" where
  "seg_fs p fr start = seg_bound (-) fr start (SAMPLE_MARGIN p)"

definition seg_fe :: "params \<Rightarrow> int \<Rightarrow> real \<Rightarrow> py_error + int" where
  "seg_fe p fr stop = seg_bound (+) fr stop (SAMPLE_MARGIN p)"

definition split_wav_segment ::
  "params \<Rightarrow> string \<Rightarrow> 'a wave_read \<Rightarrow> string \<times> real \<times> real \<Rightarrow> 'a split_state
     \<Rightarrow> py_error + 'a split_state" where
  "split_wav_segment p target_dir wav seg st =
     (case seg of (utt, start, stop) \<Rightarrow>
        (case seg_fs p (framerate wav) start of
           Inl e \<Rightarrow> Inl e
         | Inr fs \<Rightarrow>
             (case seg_fe p (framerate wav) stop of
                Inl e \<Rightarrow> Inl e
              | Inr fe \<Rightarrow>
                  let nf = int (length (frames wav))
                  in if fs < 0 \<or> fe > nf then Inr st
                     else if fs > nf then Inl WaveError
                     else let signal = readframes (frames wav) (nat fs) (fe - fs);
                              file = utt_file target_dir utt ''.wav''
                          in Inr \<lparr>clips = clips st @ [(file, signal)],
                                  manifest = AList.update utt (file, fe - fs) (manifest st)\<rparr>)))"

fun split_wav_segments ::
  "params \<Rightarrow> string \<Rightarrow> 'a wave_read \<Rightarrow> (string \<times> real \<times> real) list \<Rightarrow> 'a split_state
     \<Rightarrow> py_error + 'a split_state" where
  "split_wav_segments p target_dir wav [] st = Inr st"
| "split_wav_segments p target_dir wav (seg # segs) st =
     (case split_wav_segment p target_dir wav seg st of
        Inl e \<Rightarrow> Inl e
      | Inr st' \<Rightarrow> split_wav_segments p target_dir wav segs st')"









section \<open>The dataset\<close>

text \<open>
  \<open>xs[i]\<close>: a negative index counts from the end, and an index outside the list
  raises \<open>IndexError\<close>.
\<close>

definition py_index :: "'a list \<Rightarrow> int \<Rightarrow> py_error + 'a" where
  "py_index xs i =
     (let n = int (length xs);
          j = (if i < 0 then i + n else i)
      in if 0 \<le> j \<and> j < n then Inr (xs ! nat j) else Inl IndexError)"

text \<open>A list comprehension whose element expression can raise stops at the first exception.\<close>

fun map_err :: "('a \<Rightarrow> py_error + 'b) \<Rightarrow> 'a list \<Rightarrow> py_error + 'b list" where
  "map_err f [] = Inr []"
| "map_err f (x # xs) =
     (case f x of
        Inl e \<Rightarrow> Inl e
      | Inr y \<Rightarrow> (case map_err f xs of Inl e \<Rightarrow> Inl e | Inr ys \<Rightarrow> Inr (y # ys)))"

text \<open>
  \<^verbatim>\<open>self.entries = [e for e in self.entries if (_samples2frames(int(e[2])) > 100)]\<close>
\<close>

definition entry_frames_est :: "params \<Rightarrow> string list \<Rightarrow> py_error + int" where
  "entry_frames_est p e =
     (case py_index e 2 of
        Inl err \<Rightarrow> Inl err
      | Inr field \<Rightarrow>
          (case py_int field of Inl err \<Rightarrow> Inl err | Inr n \<Rightarrow> samples2frames p n))"

fun drop_short :: "params \<Rightarrow> string list list \<Rightarrow> py_error + string list list" where
  "drop_short p [] = Inr []"
| "drop_short p (e # es) =
     (case entry_frames_est p e of
        Inl err \<Rightarrow> Inl err
      | Inr f \<Rightarrow>
          (case drop_short p es of
             Inl err \<Rightarrow> Inl err
           | Inr rest \<Rightarrow> Inr (if f > 100 then e # rest else rest)))"

text \<open>
  \<open>random.sample(population, k)\<close> raises \<open>ValueError\<close> unless \<open>0 \<le> k \<le> n\<close>, and
  otherwise draws \<open>k\<close> positions without replacement: the \<open>i\<close>-th draw takes position
  \<open>j\<close>, uniform below the number of elements left, and moves the last element left to
  position \<open>j\<close>. The random numbers are an argument, \<open>rnd i\<close> for draw \<open>i\<close>, reduced
  modulo the number of elements left.
\<close>

fun sample_pool :: "(nat \<Rightarrow> nat) \<Rightarrow> nat \<Rightarrow> 'a list \<Rightarrow> nat \<Rightarrow> 'a list" where
  "sample_pool rnd i pool 0 = []"
| "sample_pool rnd i pool (Suc k) =
     (let j = rnd i mod length pool
      in pool ! j # sample_pool rnd (Suc i) (butlast (pool[j := last pool])) k)"

definition random_sample :: "(nat \<Rightarrow> nat) \<Rightarrow> 'a list \<Rightarrow> int \<Rightarrow> py_error + 'a list" where
  "random_sample rnd population k =
     (if k < 0 \<or> int (length population) < k then Inl ValueError
      else Inr (sample_pool rnd 0 population (nat k)))"

text \<open>
  \<^verbatim>\<open>
  def _load_manifest(self):
      manifest_file = self.root / f"{self.mode}.csv"
      if not self.root.exists() or not manifest_file.exists():
          logger.error(...)
          sys.exit(1)
      with open(manifest_file, "r") as f:
          manifest = f.readlines()
      self.entries = [tuple(x.strip().split(',')) for x in manifest]
      # drop short entries less than 1 sec
      self.entries = [e for e in self.entries if (_samples2frames(int(e[2])) > 100)]
      # randomly choose a number of data_size
      size = min(self.data_size, len(manifest))
      self.entries = random.sample(self.entries, size)
      if self.mode == "train_unsup":
          self.entry_frames = [_samples2frames(int(e[2])) for e in self.entries]
      else:
          self.entry_frames = [int(e[4]) for e in self.entries]
  \<close>
  The manifest file is the list of its lines (\<open>manifest\<close> in the source, \<open>lines\<close>
  here), or \<open>None\<close> when it does not exist.
  \<open>data_size\<close> is \<open>Some\<close> integer, or \<open>None\<close> for the default \<open>1e30\<close>, above the
  number of lines of any file. The result is the pair of \<open>entries\<close> and
  \<open>entry_frames\<close>.
\<close>

definition load_manifest ::
  "params \<Rightarrow> (nat \<Rightarrow> nat) \<Rightarrow> string \<Rightarrow> int option \<Rightarrow> string list option
     \<Rightarrow> py_error + string list list \<times> int list" where
  "load_manifest p rnd mode data_size manifest_file =
     (case manifest_file of
        None \<Rightarrow> Inl SystemExit
      | Some lines \<Rightarrow>
          (case drop_short p (map (\<lambda>x. split_sep (CHR '','') (strip x)) lines) of
             Inl err \<Rightarrow> Inl err
           | Inr es \<Rightarrow>
               let size = (case data_size of
                             None \<Rightarrow> int (length lines)
                           | Some d \<Rightarrow> min d (int (length lines)))
               in (case random_sample rnd es size of
                     Inl err \<Rightarrow> Inl err
                   | Inr es' \<Rightarrow>
                       (case (if mode = ''train_unsup''
                              then map_err (entry_frames_est p) es'
                              else map_err (\<lambda>e. case py_index e 4 of
                                                   Inl err \<Rightarrow> Inl err
                                                 | Inr field \<Rightarrow> py_int field) es') of
                          Inl err \<Rightarrow> Inl err
                        | Inr entry_frames \<Rightarrow> Inr (es', entry_frames)))))"

text \<open>
  A tensor is its shape and its elements; \<open>torch.zeros_like\<close> keeps the shape and
  makes every element zero.
\<close>

datatype 'a tensor = Tensor (shape: "nat list") (elems: "'a list")

definition zeros_like :: "'a::zero tensor \<Rightarrow> 'a tensor" where
  "zeros_like t = Tensor (shape t) (map (\<lambda>_. 0) (elems t))"

text \<open>
  \<^verbatim>\<open>np.loadtxt(phn_file, dtype="int")\<close> reads a label file, which holds one integer on
  each line, as an array that is squeezed: for a file of one line the array has no
  dimension, and its \<open>tolist()\<close> is the integer itself, not a list. For no line, or for
  two or more, \<open>tolist()\<close> is the list of the integers.
\<close>

datatype loaded = Scalar int | Array "int list"

definition tolist :: "int list \<Rightarrow> loaded" where
  "tolist xs = (case xs of [x] \<Rightarrow> Scalar x | _ \<Rightarrow> Array xs)"

text \<open>
  The dataset object: the mode, the entries, the audio transform of the base class
  (which reads and windows an audio file, or raises), the integers that a label file
  holds, one on each line (or the exception of reading it), and the target transform.
  The two transforms come from \<^verbatim>\<open>utils/audio.py\<close>, which is not among the sources,
  and are fields of the record; the target transform takes what \<open>tolist()\<close> returns and
  yields a sequence of encodings, or raises. Without a target transform the targets are
  what \<open>tolist()\<close> returned: the integers of the label file, or one integer, which has
  no length.
\<close>

datatype 'l target = Label int | Encoded 'l

record ('a, 'l) aspire =
  mode :: string
  entries :: "string list list"
  transform :: "(string \<Rightarrow> py_error + 'a tensor list) option"
  label_file :: "string \<Rightarrow> py_error + int list"
  target_transform :: "(loaded \<Rightarrow> py_error + 'l list) option"

text \<open>
  \<^verbatim>\<open>
  # manipulating when the length of data and targets are mismatched
  l0, l1 = len(tensors), len(targets)
  if l0 > l1:
      tensors = tensors[:l1]
  elif l0 < l1:
      tensors.extend([torch.zeros_like(tensors[0]) for i in range(l1 - l0)])
  return tensors, targets
  \<close>
\<close>

definition match_lengths ::
  "'a::zero tensor list \<Rightarrow> 't list \<Rightarrow> py_error + 'a tensor list \<times> 't list option" where
  "match_lengths tensors targets =
     (let l0 = length tensors; l1 = length targets
      in if l0 > l1 then Inr (take l1 tensors, Some targets)
         else if l0 < l1
              then (case tensors of
                      [] \<Rightarrow> Inl IndexError
                    | t0 # _ \<Rightarrow> Inr (tensors @ replicate (l1 - l0) (zeros_like t0), Some targets))
              else Inr (tensors, Some targets))"

text \<open>
  \<^verbatim>\<open>
  def __getitem__(self, index):
      uttid, wav_file, samples, phn_file, num_phns, txt_file = self.entries[index]
      # read and transform wav file
      if self.transform is not None:
          tensors = self.transform(wav_file)
      if self.mode == "train_unsup":
          return tensors, None
      # read phn file
      targets = np.loadtxt(phn_file, dtype="int").tolist()
      if self.target_transform is not None:
          targets = self.target_transform(targets)
      ...
  \<close>
  Without an audio transform the local name \<open>tensors\<close> is unbound where it is read,
  and \<open>len(tensors)\<close> is evaluated before \<open>len(targets)\<close>.
\<close>

definition getitem ::
  "('a::zero, 'l) aspire \<Rightarrow> int \<Rightarrow> py_error + 'a tensor list \<times> 'l target list option" where
  "getitem ds index =
     (case py_index (entries ds) index of
        Inl err \<Rightarrow> Inl err
      | Inr entry \<Rightarrow>
          (case entry of
             [utt, wav, n, phn, num_phns, txt] \<Rightarrow>
               (case (case transform ds of
                        None \<Rightarrow> Inr None
                      | Some f \<Rightarrow> map_sum id Some (f wav)) of
                  Inl err \<Rightarrow> Inl err
                | Inr tensors \<Rightarrow>
                    if mode ds = ''train_unsup''
                    then (case tensors of
                            None \<Rightarrow> Inl UnboundLocalError
                          | Some ts \<Rightarrow> Inr (ts, None))
                    else (case label_file ds phn of
                            Inl err \<Rightarrow> Inl err
                          | Inr ints \<Rightarrow>
                              (case (case target_transform ds of
                                       None \<Rightarrow>
                                         Inr (case tolist ints of
                                                Scalar x \<Rightarrow> None
                                              | Array xs \<Rightarrow> Some (map Label xs))
                                     | Some g \<Rightarrow>
                                         map_sum id (\<lambda>ts. Some (map Encoded ts))
                                           (g (tolist ints))) of
                                 Inl err \<Rightarrow> Inl err
                               | Inr targets \<Rightarrow>
                                   (case tensors of
                                      None \<Rightarrow> Inl UnboundLocalError
                                    | Some ts \<Rightarrow>
                                        (case targets of
                                           None \<Rightarrow> Inl TypeError
                                         | Some tgs \<Rightarrow> match_lengths ts tgs)))))
           | _ \<Rightarrow> Inl ValueError))"

text \<open>
  A dev set of one entry, without a target transform, whose audio has \<open>l0\<close> frames of
  two elements and whose label file holds the integers \<open>labels\<close>.
\<close>

definition frame :: "real tensor" where
  "frame = Tensor [2] [0.5, - 1.5]"

definition example_set :: "nat \<Rightarrow> int list \<Rightarrow> (real, int list) aspire" where
  "example_set l0 labels =
     \<lparr>mode = ''dev'',
      entries = [[''fe_03_00030-A'', ''/data/000/fe_03_00030-A.wav'', ''24000'',
                  ''/data/000/fe_03_00030-A.phn'', ''5'', ''/data/000/fe_03_00030-A.txt'']],
      transform = Some (\<lambda>f. Inr (replicate l0 frame)),
      label_file = (\<lambda>f. Inr labels),
      target_transform = None\<rparr>"

text \<open>
  To state the properties of an access: the targets of a supervised access are the
  sequence \<open>targets\<close> when the target transform returns it or, without a target
  transform, when it is the integers of a label file that does not hold exactly one.
\<close>

definition label_sequence ::
  "('a, 'l) aspire \<Rightarrow> int list \<Rightarrow> 'l target list \<Rightarrow> bool" where
  "label_sequence ds ints targets =
     (case target_transform ds of
        None \<Rightarrow> length ints \<noteq> 1 \<and> targets = map Label ints
      | Some g \<Rightarrow>
          (case g (tolist ints) of Inl e \<Rightarrow> False | Inr ts \<Rightarrow> targets = map Encoded ts))"

text \<open>
  A manifest of two lines, for an utterance of 20000 samples (228 frames) and one of
  5000 samples (41 frames).
\<close>

definition example_manifest :: "string list" where
  "example_manifest =
     [''fe_03_00030-A,/data/000/fe_03_00030-A.wav,20000,/data/000/fe_03_00030-A.phn,228,/data/000/fe_03_00030-A.txt'' @ [CHR 0x0A],
      ''fe_03_00200-B,/data/002/fe_03_00200-B.wav,5000,/data/002/fe_03_00200-B.phn,41,/data/002/fe_03_00200-B.txt'' @ [CHR 0x0A]]"

section \<open>Alignment decoding\<close>

















section \<open>Properties of the transcript normalisation\<close>

lemma py_lower_mask: "c \<in> set mask \<Longrightarrow> py_lower c = c"
  by (auto simp: mask_def py_lower_def)

lemma lower_filter_mask: "lower [x \<leftarrow> s. x \<in> set mask] = [x \<leftarrow> s. x \<in> set mask]"
  by (induction s) (simp_all add: lower_def py_lower_mask)

lemma strip_text_idem: "strip_text (strip_text t) = strip_text t"
  by (simp add: strip_text_def lower_filter_mask)

lemma strip_text_Hello: "strip_text ''Hello, World! 123'' = ''hello world ''"
  by code_simp

text \<open>
  Claim C7, as stated, gives \<open>''hello world''\<close> as the normalisation of
  \<open>''Hello, World! 123''\<close>. The space between \<open>!\<close> and \<open>123\<close> is in the mask and is
  kept, so the result of the code ends with a space.
\<close>

theorem strip_text_Hello_counterexample:
  "strip_text ''Hello, World! 123'' \<noteq> ''hello world''"
  by code_simp

text \<open>
  Claim C7, amended: the normalisation lowercases its input and keeps, in order, exactly
  the characters of the mask (\<open>a\<close>..\<open>z\<close>, apostrophe, hyphen, space): its result is a
  subsequence of the lowercased input, it holds the mask characters of the lowercased
  input and no others, each as often as the lowercased input does; the result for
  \<open>''Hello, World! 123''\<close> is \<open>''hello world ''\<close>, with the space before the digits
  kept; and normalising a result again changes nothing.
\<close>

theorem strip_text_spec:
  "subseq (strip_text t) (lower t)
   \<and> count_list (strip_text t) c = (if c \<in> set mask then count_list (lower t) c else 0)
   \<and> strip_text ''Hello, World! 123'' = ''hello world ''
   \<and> strip_text (strip_text t) = strip_text t"
proof -
  have "count_list [x \<leftarrow> s. x \<in> set mask] c = (if c \<in> set mask then count_list s c else 0)"
    for s
    by (induction s) auto
  then have "count_list (strip_text t) c = (if c \<in> set mask then count_list (lower t) c else 0)"
    by (simp add: strip_text_def)
  moreover have "subseq (strip_text t) (lower t)"
    by (simp add: strip_text_def)
  ultimately show ?thesis
    using strip_text_Hello strip_text_idem by simp
qed

section \<open>Properties of the frame arithmetic\<close>

text \<open>
  Claim C4, as stated, has the frame count non-negative for every number of samples. With
  a window of 200 samples, a shift of 80 and a margin of 800, a recording of no samples
  has \<open>- 22\<close> frames.
\<close>

theorem samples2frames_negative_counterexample:
  "samples2frames params_8k 0 = Inr (- 22) \<and> \<not> (0::int) \<le> - 22"
  by (simp add: samples2frames_def params_8k_def)

text \<open>
  Claim C4, amended: for a positive window shift, the frame count of \<open>n\<close> samples is
  \<open>floor ((n - 2 * margin - windowSize) / windowShift) + 1\<close>, an integer that is
  non-negative exactly when \<open>n \<ge> 2 * margin + windowSize - windowShift\<close> and negative
  otherwise.
\<close>

theorem samples2frames_formula:
  assumes "0 < WIN_SAMP_SHIFT p"
  shows "\<exists>f. samples2frames p n = Inr f
     \<and> f = \<lfloor>real_of_int (n - 2 * SAMPLE_MARGIN p - WIN_SAMP_SIZE p)
            / real_of_int (WIN_SAMP_SHIFT p)\<rfloor> + 1
     \<and> (0 \<le> f \<longleftrightarrow> 2 * SAMPLE_MARGIN p + WIN_SAMP_SIZE p - WIN_SAMP_SHIFT p \<le> n)"
proof -
  let ?x = "n - 2 * SAMPLE_MARGIN p - WIN_SAMP_SIZE p"
  let ?s = "WIN_SAMP_SHIFT p"
  have "(?x + ?s) div ?s = ?x div ?s + 1"
    using assms by simp
  moreover have "0 \<le> (?x + ?s) div ?s \<longleftrightarrow> 0 \<le> ?x + ?s"
    by (rule pos_imp_zdiv_nonneg_iff [OF assms])
  ultimately have "0 \<le> ?x div ?s + 1 \<longleftrightarrow> 2 * SAMPLE_MARGIN p + WIN_SAMP_SIZE p - ?s \<le> n"
    by auto
  moreover have "\<lfloor>real_of_int ?x / real_of_int ?s\<rfloor> = ?x div ?s"
    by (rule floor_divide_of_int_eq)
  moreover have "samples2frames p n = Inr (?x div ?s + 1)"
    using assms by (simp add: samples2frames_def)
  ultimately show ?thesis
    by (simp only: sum.inject ex_simps simp_thms)
qed

theorem samples2frames_formula_witness:
  "0 < WIN_SAMP_SHIFT params_8k \<and> samples2frames params_8k 20000 = Inr 228"
  using samples2frames_formula [of params_8k 20000]
  by (auto simp: params_8k_def)

section \<open>Properties of the manifest building\<close>

lemma prepare_data_step_eq:
  "prepare_data_step txts (Some phns) item st =
     (if in_all_three txts phns item
      then (case py_int (slice 6 11 (fst item)) of
              Inl e \<Rightarrow> Inl e
            | Inr code \<Rightarrow> Inr (write_record (split_of_code code) (joined_record txts phns item) st))
      else Inr st)"
  by (auto simp: prepare_data_step_def in_all_three_def joined_record_def Let_def
        write_record_def split_of_code_def
        split: prod.splits option.splits sum.splits)




lemma uttid_joined_record: "uttid (joined_record txts phns item) = fst item"
  by (cases item) (simp add: joined_record_def)




text \<open>
  In the module as it is, nothing binds \<^verbatim>\<open>train_wav_manifest\<close>, and the loop of
  \<^verbatim>\<open>prepare_data\<close> raises before its first step.
\<close>

lemma prepare_data_unbound: "prepare_data None txts phns = Inl NameError"
  by (simp add: prepare_data_def)

subsection \<open>Replacement in paths\<close>

lemma py_replace_match:
  assumes "old \<noteq> []"
  shows "py_replace old new (old @ b) = new @ py_replace old new b"
proof (cases "old @ b")
  case Nil
  with assms show ?thesis by simp
next
  case (Cons c cs)
  have t: "take (length old) (c # cs) = old" and d: "drop (length old) (c # cs) = b"
    by (simp_all add: Cons [symmetric])
  have "py_replace old new (c # cs) = new @ py_replace old new (drop (length old) (c # cs))"
    using assms t by (simp del: take_Suc_Cons drop_Suc_Cons)
  then show ?thesis
    by (simp only: d Cons)
qed

lemma py_replace_first:
  assumes "old \<noteq> []"
  shows "\<exists>p r. a @ old @ b = p @ old @ r \<and> length p \<le> length a
           \<and> py_replace old new (a @ old @ b) = p @ new @ py_replace old new r"
proof (induction a)
  case Nil
  show ?case
    using py_replace_match [OF assms, of new b]
    by (intro exI [of _ "[]"] exI [of _ b]) simp
next
  case (Cons x a)
  show ?case
  proof (cases "take (length old) (x # a @ old @ b) = old")
    case True
    let ?r = "drop (length old) (x # a @ old @ b)"
    have "x # a @ old @ b = old @ ?r"
      using True append_take_drop_id [of "length old" "x # a @ old @ b"] by simp
    moreover have "py_replace old new (x # a @ old @ b) = new @ py_replace old new ?r"
      using True assms by simp
    ultimately show ?thesis
      by (intro exI [of _ "[]"] exI [of _ ?r]) simp
  next
    case False
    then have "py_replace old new (x # a @ old @ b) = x # py_replace old new (a @ old @ b)"
      using assms by simp
    moreover obtain p r where "a @ old @ b = p @ old @ r" "length p \<le> length a"
        "py_replace old new (a @ old @ b) = p @ new @ py_replace old new r"
      using Cons.IH by blast
    ultimately show ?thesis
      by (intro exI [of _ "x # p"] exI [of _ r]) simp
  qed
qed

lemma py_replace_differs:
  assumes "old \<noteq> []" "length new = length old" "new \<noteq> old"
  shows "py_replace old new (a @ old @ b @ e) \<noteq> a @ old @ b @ e'"
proof
  assume eq: "py_replace old new (a @ old @ b @ e) = a @ old @ b @ e'"
  obtain p r where p: "a @ old @ (b @ e) = p @ old @ r" "length p \<le> length a"
      "py_replace old new (a @ old @ (b @ e)) = p @ new @ py_replace old new r"
    using py_replace_first [OF assms(1), of a "b @ e" new] by blast
  let ?n = "length p + length old"
  have "take ?n (a @ old @ b @ e') = take ?n (a @ old @ b @ e)"
    using p(2) by simp
  also have "\<dots> = p @ old"
    using p(1) by simp
  finally have "take ?n (a @ old @ b @ e') = p @ old" .
  moreover have "take ?n (py_replace old new (a @ old @ b @ e)) = p @ new"
    using p(3) assms(2) by simp
  ultimately show False
    using eq assms(3) by simp
qed


subsection \<open>The split rule and the reconstruction\<close>

lemma reconstruct_step_eq:
  "reconstruct_step fs wav st =
     (if path_exists fs (py_replace ''wav'' ''txt'' wav) \<and> path_exists fs (py_replace ''wav'' ''phn'' wav)
      then (case getnframes fs wav of
              Inl e \<Rightarrow> Inl e
            | Inr n \<Rightarrow>
                (case get_num_lines (the (files fs (py_replace ''wav'' ''phn'' wav))) of
                   Inl e \<Rightarrow> Inl e
                 | Inr frms \<Rightarrow>
                     (case py_int (slice 6 11 (path_stem wav)) of
                        Inl e \<Rightarrow> Inl e
                      | Inr code \<Rightarrow>
                          Inr (write_record (split_of_code code)
                                 \<lparr>uttid = path_stem wav, wav_file = wav, samples = n,
                                  phn_file = py_replace ''wav'' ''phn'' wav, num_frms = frms,
                                  txt_file = py_replace ''wav'' ''txt'' wav\<rparr> st))))
      else Inr st)"
  by (auto simp: reconstruct_step_def Let_def write_record_def split_of_code_def
        split: sum.splits)

lemma prepare_data_loop_split:
  assumes "\<forall>item \<in> set items. in_all_three txts phns item \<longrightarrow>
             \<not> isl (py_int (slice 6 11 (fst item)))"
  shows "\<exists>out. prepare_data_loop txts (Some phns) items st = Inr out
     \<and> dev_csv out = dev_csv st @ map (joined_record txts phns)
         (filter (\<lambda>item. in_all_three txts phns item \<and> routes_dev (fst item)) items)
     \<and> train_csv out = train_csv st @ map (joined_record txts phns)
         (filter (\<lambda>item. in_all_three txts phns item \<and> \<not> routes_dev (fst item)) items)"
  using assms
proof (induction items arbitrary: st)
  case Nil
  then show ?case by simp
next
  case (Cons item items)
  show ?case
  proof (cases "in_all_three txts phns item")
    case False
    then have "prepare_data_loop txts (Some phns) (item # items) st =
        prepare_data_loop txts (Some phns) items st"
      by (simp add: prepare_data_step_eq)
    with Cons.IH [of st] Cons.prems False show ?thesis by auto
  next
    case True
    with Cons.prems obtain code where c: "py_int (slice 6 11 (fst item)) = Inr code"
      by (cases "py_int (slice 6 11 (fst item))") auto
    define st' where "st' = write_record (split_of_code code) (joined_record txts phns item) st"
    have step: "prepare_data_loop txts (Some phns) (item # items) st =
        prepare_data_loop txts (Some phns) items st'"
      using True c by (simp add: prepare_data_step_eq st'_def)
    have r: "routes_dev (fst item) \<longleftrightarrow> 0 < code \<and> code < 60"
      by (simp add: routes_dev_def c)
    have d: "dev_csv st' = dev_csv st @ (if routes_dev (fst item) then [joined_record txts phns item] else [])"
      and t: "train_csv st' = train_csv st @ (if routes_dev (fst item) then [] else [joined_record txts phns item])"
      by (simp_all add: st'_def write_record_def split_of_code_def r)
    from Cons.IH [of st'] Cons.prems obtain out where
      "prepare_data_loop txts (Some phns) items st' = Inr out"
      "dev_csv out = dev_csv st' @ map (joined_record txts phns)
         (filter (\<lambda>item. in_all_three txts phns item \<and> routes_dev (fst item)) items)"
      "train_csv out = train_csv st' @ map (joined_record txts phns)
         (filter (\<lambda>item. in_all_three txts phns item \<and> \<not> routes_dev (fst item)) items)"
      by auto
    then show ?thesis
      unfolding step d t using True by simp
  qed
qed

lemma reconstruct_loop_split:
  assumes "\<forall>wav \<in> set wavs. has_companions fs wav \<longrightarrow> readable fs wav"
  shows "\<exists>out. reconstruct_loop fs wavs st = Inr out
     \<and> dev_csv out = dev_csv st @ map (rebuilt_record fs)
         (filter (\<lambda>wav. has_companions fs wav \<and> routes_dev (path_stem wav)) wavs)
     \<and> train_csv out = train_csv st @ map (rebuilt_record fs)
         (filter (\<lambda>wav. has_companions fs wav \<and> \<not> routes_dev (path_stem wav)) wavs)"
  using assms
proof (induction wavs arbitrary: st)
  case Nil
  then show ?case by simp
next
  case (Cons wav wavs)
  show ?case
  proof (cases "has_companions fs wav")
    case False
    then have "reconstruct_step fs wav st = Inr st"
      unfolding reconstruct_step_eq has_companions_def by (simp only: if_False)
    then have "reconstruct_loop fs (wav # wavs) st = reconstruct_loop fs wavs st"
      by simp
    with Cons.IH [of st] Cons.prems False show ?thesis by auto
  next
    case True
    with Cons.prems have rd: "readable fs wav" by simp
    obtain n where n: "getnframes fs wav = Inr n"
      using rd by (cases "getnframes fs wav") (auto simp: readable_def)
    obtain frms where m: "get_num_lines (the (files fs (py_replace ''wav'' ''phn'' wav))) = Inr frms"
      using rd by (cases "get_num_lines (the (files fs (py_replace ''wav'' ''phn'' wav)))")
        (auto simp: readable_def)
    obtain code where c: "py_int (slice 6 11 (path_stem wav)) = Inr code"
      using rd by (cases "py_int (slice 6 11 (path_stem wav))") (auto simp: readable_def)
    define st' where "st' = write_record (split_of_code code) (rebuilt_record fs wav) st"
    have "reconstruct_step fs wav st = Inr st'"
      using True unfolding reconstruct_step_eq has_companions_def
      by (simp add: n m c st'_def rebuilt_record_def)
    then have step: "reconstruct_loop fs (wav # wavs) st = reconstruct_loop fs wavs st'"
      by simp
    have r: "routes_dev (path_stem wav) \<longleftrightarrow> 0 < code \<and> code < 60"
      by (simp add: routes_dev_def c)
    have d: "dev_csv st' = dev_csv st @ (if routes_dev (path_stem wav) then [rebuilt_record fs wav] else [])"
      and t: "train_csv st' = train_csv st @ (if routes_dev (path_stem wav) then [] else [rebuilt_record fs wav])"
      by (simp_all add: st'_def write_record_def split_of_code_def r)
    from Cons.IH [of st'] Cons.prems obtain out where
      "reconstruct_loop fs wavs st' = Inr out"
      "dev_csv out = dev_csv st' @ map (rebuilt_record fs)
         (filter (\<lambda>wav. has_companions fs wav \<and> routes_dev (path_stem wav)) wavs)"
      "train_csv out = train_csv st' @ map (rebuilt_record fs)
         (filter (\<lambda>wav. has_companions fs wav \<and> \<not> routes_dev (path_stem wav)) wavs)"
      by auto
    then show ?thesis
      unfolding step d t using True by simp
  qed
qed


lemma routes_dev_iff:
  "routes_dev k \<longleftrightarrow> (\<exists>code. py_int (slice 6 11 k) = Inr code \<and> 0 < code \<and> code < 60)"
  by (cases "py_int (slice 6 11 k)") (simp_all add: routes_dev_def)

text \<open>
  Claim C6: when the code of every joined id parses, \<^verbatim>\<open>prepare_data\<close> writes to the
  dev manifest the joined records, in order, of exactly the ids whose code, parsed from
  the positions 6 to 10, is above 0 and below 60, and to the train manifest the joined
  records of all others; when every audio file with its two derived files can be read,
  \<^verbatim>\<open>reconstruct_manifest\<close> writes the rebuilt records to the two manifests by the
  same rule, applied to the stem of the file. Code 30 goes to dev; the codes 0, 60 and
  200 go to train.
\<close>

theorem split_rule:
  "((\<forall>item \<in> set audio. in_all_three text align item \<longrightarrow>
        \<not> isl (py_int (slice 6 11 (fst item)))) \<longrightarrow>
     (\<exists>out. prepare_data (Some audio) text (Some align) = Inr out
        \<and> dev_csv out = map (joined_record text align)
            (filter (\<lambda>item. in_all_three text align item \<and> routes_dev (fst item)) audio)
        \<and> train_csv out = map (joined_record text align)
            (filter (\<lambda>item. in_all_three text align item \<and> \<not> routes_dev (fst item)) audio)))
   \<and> ((\<forall>wav \<in> set wavs. has_companions fs wav \<longrightarrow> readable fs wav) \<longrightarrow>
     (\<exists>out. reconstruct_manifest fs wavs = Inr out
        \<and> dev_csv out = map (rebuilt_record fs)
            (filter (\<lambda>wav. has_companions fs wav \<and> routes_dev (path_stem wav)) wavs)
        \<and> train_csv out = map (rebuilt_record fs)
            (filter (\<lambda>wav. has_companions fs wav \<and> \<not> routes_dev (path_stem wav)) wavs)))
   \<and> (routes_dev k \<longleftrightarrow>
        (\<exists>code. py_int (slice 6 11 k) = Inr code \<and> 0 < code \<and> code < 60))
   \<and> uttid (joined_record text align item) = fst item
   \<and> uttid (rebuilt_record fs wav) = path_stem wav"
proof (intro conjI impI)
  assume "\<forall>item \<in> set audio. in_all_three text align item \<longrightarrow>
        \<not> isl (py_int (slice 6 11 (fst item)))"
  from prepare_data_loop_split [OF this, of no_records]
  show "\<exists>out. prepare_data (Some audio) text (Some align) = Inr out
        \<and> dev_csv out = map (joined_record text align)
            (filter (\<lambda>item. in_all_three text align item \<and> routes_dev (fst item)) audio)
        \<and> train_csv out = map (joined_record text align)
            (filter (\<lambda>item. in_all_three text align item \<and> \<not> routes_dev (fst item)) audio)"
    by (simp add: prepare_data_def no_records_def)
next
  assume "\<forall>wav \<in> set wavs. has_companions fs wav \<longrightarrow> readable fs wav"
  from reconstruct_loop_split [OF this, of no_records]
  show "\<exists>out. reconstruct_manifest fs wavs = Inr out
        \<and> dev_csv out = map (rebuilt_record fs)
            (filter (\<lambda>wav. has_companions fs wav \<and> routes_dev (path_stem wav)) wavs)
        \<and> train_csv out = map (rebuilt_record fs)
            (filter (\<lambda>wav. has_companions fs wav \<and> \<not> routes_dev (path_stem wav)) wavs)"
    by (simp add: reconstruct_manifest_def no_records_def)
next
  show "routes_dev k \<longleftrightarrow>
        (\<exists>code. py_int (slice 6 11 k) = Inr code \<and> 0 < code \<and> code < 60)"
    by (rule routes_dev_iff)
next
  show "uttid (joined_record text align item) = fst item"
    by (rule uttid_joined_record)
next
  show "uttid (rebuilt_record fs wav) = path_stem wav"
    by (simp add: rebuilt_record_def)
qed

theorem split_rule_witness:
  "(\<exists>out. prepare_data (Some codes_wavs) codes_txts (Some codes_phns) = Inr out
      \<and> map uttid (dev_csv out) = [''fe_03_00030-A'']
      \<and> map uttid (train_csv out) = [''fe_03_00000-A'', ''fe_03_00060-A'', ''fe_03_00200-A''])
   \<and> (\<exists>out. reconstruct_manifest codes_fs codes_paths = Inr out
      \<and> map uttid (dev_csv out) = [''fe_03_00030-A'']
      \<and> map uttid (train_csv out) = [''fe_03_00000-A'', ''fe_03_00060-A'', ''fe_03_00200-A''])"
proof -
  have code: "py_int (slice 6 11 ''fe_03_00030-A'') = Inr 30"
      "py_int (slice 6 11 ''fe_03_00000-A'') = Inr 0"
      "py_int (slice 6 11 ''fe_03_00060-A'') = Inr 60"
      "py_int (slice 6 11 ''fe_03_00200-A'') = Inr 200"
    by code_simp+
  have stem: "path_stem ''/data/000/fe_03_00030-A.wav'' = ''fe_03_00030-A''"
      "path_stem ''/data/000/fe_03_00000-A.wav'' = ''fe_03_00000-A''"
      "path_stem ''/data/000/fe_03_00060-A.wav'' = ''fe_03_00060-A''"
      "path_stem ''/data/002/fe_03_00200-A.wav'' = ''fe_03_00200-A''"
    by code_simp+
  have rtxt: "py_replace ''wav'' ''txt'' ''/data/000/fe_03_00030-A.wav'' = ''/data/000/fe_03_00030-A.txt''"
      "py_replace ''wav'' ''txt'' ''/data/000/fe_03_00000-A.wav'' = ''/data/000/fe_03_00000-A.txt''"
      "py_replace ''wav'' ''txt'' ''/data/000/fe_03_00060-A.wav'' = ''/data/000/fe_03_00060-A.txt''"
      "py_replace ''wav'' ''txt'' ''/data/002/fe_03_00200-A.wav'' = ''/data/002/fe_03_00200-A.txt''"
    by code_simp+
  have rphn: "py_replace ''wav'' ''phn'' ''/data/000/fe_03_00030-A.wav'' = ''/data/000/fe_03_00030-A.phn''"
      "py_replace ''wav'' ''phn'' ''/data/000/fe_03_00000-A.wav'' = ''/data/000/fe_03_00000-A.phn''"
      "py_replace ''wav'' ''phn'' ''/data/000/fe_03_00060-A.wav'' = ''/data/000/fe_03_00060-A.phn''"
      "py_replace ''wav'' ''phn'' ''/data/002/fe_03_00200-A.wav'' = ''/data/002/fe_03_00200-A.phn''"
    by code_simp+
  have h1: "\<forall>item \<in> set codes_wavs. in_all_three codes_txts codes_phns item \<longrightarrow>
        \<not> isl (py_int (slice 6 11 (fst item)))"
    by (simp add: codes_wavs_def code)
  have h2: "\<forall>wav \<in> set codes_paths. has_companions codes_fs wav \<longrightarrow> readable codes_fs wav"
    by (simp add: codes_paths_def readable_def codes_fs_def stem code rphn get_num_lines_def)
  have f1: "filter (\<lambda>item. in_all_three codes_txts codes_phns item \<and> routes_dev (fst item))
        codes_wavs = [(''fe_03_00030-A'', ''/data/000/fe_03_00030-A.wav'', 24000)]"
    and f2: "filter (\<lambda>item. in_all_three codes_txts codes_phns item \<and> \<not> routes_dev (fst item))
        codes_wavs =
        [(''fe_03_00000-A'', ''/data/000/fe_03_00000-A.wav'', 24000),
         (''fe_03_00060-A'', ''/data/000/fe_03_00060-A.wav'', 24000),
         (''fe_03_00200-A'', ''/data/002/fe_03_00200-A.wav'', 24000)]"
    by (simp_all add: codes_wavs_def codes_txts_def codes_phns_def in_all_three_def
          routes_dev_def code)
  have g1: "filter (\<lambda>wav. has_companions codes_fs wav \<and> routes_dev (path_stem wav)) codes_paths =
        [''/data/000/fe_03_00030-A.wav'']"
    and g2: "filter (\<lambda>wav. has_companions codes_fs wav \<and> \<not> routes_dev (path_stem wav))
        codes_paths =
        [''/data/000/fe_03_00000-A.wav'', ''/data/000/fe_03_00060-A.wav'',
         ''/data/002/fe_03_00200-A.wav'']"
    by (simp_all add: codes_paths_def has_companions_def path_exists_def codes_fs_def
          routes_dev_def stem code rtxt rphn)
  note a = split_rule [of codes_wavs codes_txts codes_phns codes_paths codes_fs]
  obtain out1 where o1: "prepare_data (Some codes_wavs) codes_txts (Some codes_phns) = Inr out1"
      "dev_csv out1 = map (joined_record codes_txts codes_phns)
          [(''fe_03_00030-A'', ''/data/000/fe_03_00030-A.wav'', 24000)]"
      "train_csv out1 = map (joined_record codes_txts codes_phns)
        [(''fe_03_00000-A'', ''/data/000/fe_03_00000-A.wav'', 24000),
         (''fe_03_00060-A'', ''/data/000/fe_03_00060-A.wav'', 24000),
         (''fe_03_00200-A'', ''/data/002/fe_03_00200-A.wav'', 24000)]"
    using a h1 unfolding f1 f2 by blast
  obtain out2 where o2: "reconstruct_manifest codes_fs codes_paths = Inr out2"
      "dev_csv out2 = map (rebuilt_record codes_fs) [''/data/000/fe_03_00030-A.wav'']"
      "train_csv out2 = map (rebuilt_record codes_fs)
        [''/data/000/fe_03_00000-A.wav'', ''/data/000/fe_03_00060-A.wav'',
         ''/data/002/fe_03_00200-A.wav'']"
    using a h2 unfolding g1 g2 by blast
  have u1: "map uttid (dev_csv out1) = [''fe_03_00030-A'']"
      "map uttid (train_csv out1) = [''fe_03_00000-A'', ''fe_03_00060-A'', ''fe_03_00200-A'']"
    unfolding o1 by (simp_all add: uttid_joined_record)
  have u2: "map uttid (dev_csv out2) = [''fe_03_00030-A'']"
      "map uttid (train_csv out2) = [''fe_03_00000-A'', ''fe_03_00060-A'', ''fe_03_00200-A'']"
    unfolding o2 by (simp_all add: rebuilt_record_def stem)
  show ?thesis
    by (intro conjI exI [of _ out1] exI [of _ out2] o1(1) o2(1) u1 u2)
qed

text \<open>
  Claim C9: \<^verbatim>\<open>reconstruct_manifest\<close> takes the text and label paths of a record from
  the whole path of the audio file, with every \<open>wav\<close> in it replaced. For an audio file
  whose path has \<open>wav\<close> before the extension as well (\<open>a @ ''wav'' @ b\<close> followed by
  \<open>''.wav''\<close>), the two paths are not the paths of the files beside it, with the same
  name and the extensions \<open>.txt\<close> and \<open>.phn\<close>: if the step returns, the record was
  skipped, or written with paths that do not name these files. Under the directory
  \<^verbatim>\<open>/data/wav\<close> the paths lead into \<^verbatim>\<open>/data/txt\<close> and \<^verbatim>\<open>/data/phn\<close>.
\<close>

theorem reconstruct_replaces_every_wav:
  "py_replace ''wav'' ''txt'' (a @ ''wav'' @ b @ ''.wav'') \<noteq> a @ ''wav'' @ b @ ''.txt''
   \<and> py_replace ''wav'' ''phn'' (a @ ''wav'' @ b @ ''.wav'') \<noteq> a @ ''wav'' @ b @ ''.phn''
   \<and> (reconstruct_step fs (a @ ''wav'' @ b @ ''.wav'') st = Inr st' \<longrightarrow>
        st' = st
        \<or> (\<exists>s r. st' = write_record s r st
              \<and> txt_file r = py_replace ''wav'' ''txt'' (a @ ''wav'' @ b @ ''.wav'')
              \<and> phn_file r = py_replace ''wav'' ''phn'' (a @ ''wav'' @ b @ ''.wav'')
              \<and> txt_file r \<noteq> a @ ''wav'' @ b @ ''.txt''
              \<and> phn_file r \<noteq> a @ ''wav'' @ b @ ''.phn''))
   \<and> py_replace ''wav'' ''txt'' ''/data/wav/000/fe_03_00030-A.wav'' =
        ''/data/txt/000/fe_03_00030-A.txt''
   \<and> py_replace ''wav'' ''phn'' ''/data/wav/000/fe_03_00030-A.wav'' =
        ''/data/phn/000/fe_03_00030-A.phn''"
proof -
  let ?wav = "a @ ''wav'' @ b @ ''.wav''"
  have t: "py_replace ''wav'' ''txt'' ?wav \<noteq> a @ ''wav'' @ b @ ''.txt''"
    by (rule py_replace_differs) simp_all
  have p: "py_replace ''wav'' ''phn'' ?wav \<noteq> a @ ''wav'' @ b @ ''.phn''"
    by (rule py_replace_differs) simp_all
  have "st' = st
        \<or> (\<exists>s r. st' = write_record s r st
              \<and> txt_file r = py_replace ''wav'' ''txt'' ?wav
              \<and> phn_file r = py_replace ''wav'' ''phn'' ?wav
              \<and> txt_file r \<noteq> a @ ''wav'' @ b @ ''.txt''
              \<and> phn_file r \<noteq> a @ ''wav'' @ b @ ''.phn'')"
    if step: "reconstruct_step fs ?wav st = Inr st'"
  proof (cases "st' = st")
    case True
    then show ?thesis by simp
  next
    case False
    define w where "w = ?wav"
    have "\<exists>n frms code. st' = write_record (split_of_code code)
                 \<lparr>uttid = path_stem w, wav_file = w, samples = n,
                  phn_file = py_replace ''wav'' ''phn'' w, num_frms = frms,
                  txt_file = py_replace ''wav'' ''txt'' w\<rparr> st"
      using step False unfolding reconstruct_step_eq w_def [symmetric]
      by (auto split: if_splits sum.splits)
    then obtain s r where r: "st' = write_record s r st"
        "txt_file r = py_replace ''wav'' ''txt'' w" "phn_file r = py_replace ''wav'' ''phn'' w"
      by force
    have nt: "txt_file r \<noteq> a @ ''wav'' @ b @ ''.txt''"
      unfolding r(2) w_def by (rule t)
    have np: "phn_file r \<noteq> a @ ''wav'' @ b @ ''.phn''"
      unfolding r(3) w_def by (rule p)
    show ?thesis
      by (intro disjI2 exI [of _ s] exI [of _ r] conjI r(1) r(2) [unfolded w_def]
            r(3) [unfolded w_def] nt np)
  qed
  moreover have "py_replace ''wav'' ''txt'' ''/data/wav/000/fe_03_00030-A.wav'' =
        ''/data/txt/000/fe_03_00030-A.txt''"
    by code_simp
  moreover have "py_replace ''wav'' ''phn'' ''/data/wav/000/fe_03_00030-A.wav'' =
        ''/data/phn/000/fe_03_00030-A.phn''"
    by code_simp
  ultimately show ?thesis
    using t p by blast
qed

theorem reconstruct_replaces_every_wav_witness:
  "reconstruct_step wav_dir_fs ''/data/wav/000/fe_03_00030-A.wav'' no_records = Inr no_records
   \<and> reconstruct_step wav_dir_fs2 ''/data/wav/000/fe_03_00030-A.wav'' no_records =
       Inr \<lparr>train_csv = [],
            dev_csv = [\<lparr>uttid = ''fe_03_00030-A'', wav_file = ''/data/wav/000/fe_03_00030-A.wav'',
                        samples = 24000, phn_file = ''/data/phn/000/fe_03_00030-A.phn'',
                        num_frms = 1, txt_file = ''/data/txt/000/fe_03_00030-A.txt''\<rparr>]\<rparr>
   \<and> py_replace ''wav'' ''txt'' ''/data/wav/000/fe_03_00030-A.wav'' \<noteq>
       ''/data/wav/000/fe_03_00030-A.txt''
   \<and> py_replace ''wav'' ''phn'' ''/data/wav/000/fe_03_00030-A.wav'' \<noteq>
       ''/data/wav/000/fe_03_00030-A.phn''"
proof -
  let ?wav = "''/data/wav/000/fe_03_00030-A.wav''"
  note inst = reconstruct_replaces_every_wav [of "''/data/''" "''/000/fe_03_00030-A''"]
  have rtxt: "py_replace ''wav'' ''txt'' ?wav = ''/data/txt/000/fe_03_00030-A.txt''"
    and rphn: "py_replace ''wav'' ''phn'' ?wav = ''/data/phn/000/fe_03_00030-A.phn''"
    using inst by simp_all
  have stem: "path_stem ?wav = ''fe_03_00030-A''"
    by code_simp
  have code: "py_int (slice 6 11 ''fe_03_00030-A'') = Inr 30"
    by code_simp
  have "reconstruct_step wav_dir_fs ?wav no_records = Inr no_records"
    unfolding reconstruct_step_eq rtxt rphn
    by (simp add: path_exists_def wav_dir_fs_def)
  moreover have "reconstruct_step wav_dir_fs2 ?wav no_records =
       Inr \<lparr>train_csv = [],
            dev_csv = [\<lparr>uttid = ''fe_03_00030-A'', wav_file = ?wav,
                        samples = 24000, phn_file = ''/data/phn/000/fe_03_00030-A.phn'',
                        num_frms = 1, txt_file = ''/data/txt/000/fe_03_00030-A.txt''\<rparr>]\<rparr>"
    unfolding reconstruct_step_eq rtxt rphn stem code
    by (simp add: path_exists_def wav_dir_fs2_def wav_dir_fs_def get_num_lines_def
          split_of_code_def write_record_def no_records_def)
  ultimately show ?thesis
    using inst by simp
qed

section \<open>Properties of the segment extraction\<close>







text \<open>
  An exception of one segment leaves the loop: the segments after it get no clip.
\<close>

lemma split_wav_aborts:
  "split_wav_segment p target_dir wav seg st = Inl e \<Longrightarrow>
     split_wav_segments p target_dir wav (seg # segs) st = Inl e"
  by simp




section \<open>Properties of the dataset\<close>

text \<open>
  A supervised access whose targets are a sequence ends in the matching of the lengths;
  a label file of one integer, read without a target transform, raises \<open>TypeError\<close>.
\<close>

lemma tolist_Array: "length ints \<noteq> 1 \<Longrightarrow> tolist ints = Array ints"
  by (cases ints rule: list.exhaust; cases "tl ints") (auto simp: tolist_def)

lemma getitem_supervised:
  assumes "mode ds \<noteq> ''train_unsup''"
    and "py_index (entries ds) index = Inr [utt, wav, n, phn, num_phns, txt]"
    and "transform ds = Some f" and "f wav = Inr tensors"
    and "label_file ds phn = Inr ints"
    and "label_sequence ds ints targets"
  shows "getitem ds index = match_lengths tensors targets"
proof (cases "target_transform ds")
  case None
  with assms(6) have "tolist ints = Array ints" "targets = map Label ints"
    by (simp_all add: label_sequence_def tolist_Array)
  with assms(1-5) None show ?thesis
    by (simp add: getitem_def)
next
  case (Some g)
  with assms(6) obtain ts where "g (tolist ints) = Inr ts" "targets = map Encoded ts"
    by (cases "g (tolist ints)") (simp_all add: label_sequence_def)
  with assms(1-5) Some show ?thesis
    by (simp add: getitem_def)
qed

lemma getitem_scalar:
  assumes "mode ds \<noteq> ''train_unsup''"
    and "py_index (entries ds) index = Inr [utt, wav, n, phn, num_phns, txt]"
    and "transform ds = Some f" and "f wav = Inr tensors"
    and "label_file ds phn = Inr [x]"
    and "target_transform ds = None"
  shows "getitem ds index = Inl TypeError"
  using assms by (simp add: getitem_def tolist_def)

lemma match_lengths_nonempty:
  assumes "tensors \<noteq> [] \<or> targets = []"
  shows "match_lengths tensors targets =
     Inr (if length targets < length tensors then take (length targets) tensors
          else tensors @ replicate (length targets - length tensors) (zeros_like (hd tensors)),
          Some targets)"
  using assms by (cases tensors) (auto simp: match_lengths_def Let_def)

lemma match_lengths_empty: "targets \<noteq> [] \<Longrightarrow> match_lengths [] targets = Inl IndexError"
  by (simp add: match_lengths_def)

lemma example_set_simps:
  "mode (example_set l0 labels) \<noteq> ''train_unsup''"
  "py_index (entries (example_set l0 labels)) 0 =
      Inr [''fe_03_00030-A'', ''/data/000/fe_03_00030-A.wav'', ''24000'',
           ''/data/000/fe_03_00030-A.phn'', ''5'', ''/data/000/fe_03_00030-A.txt'']"
  "transform (example_set l0 labels) = Some (\<lambda>f. Inr (replicate l0 frame))"
  "label_file (example_set l0 labels) ''/data/000/fe_03_00030-A.phn'' = Inr labels"
  "target_transform (example_set l0 labels) = None"
  by (simp_all add: example_set_def py_index_def)

text \<open>
  Claim C3, as stated, covers every supervised access. For an entry whose audio
  transform yields no frame and whose label file has five labels, \<open>getitem\<close> returns
  no pair: it raises \<open>IndexError\<close>. For an entry with three audio frames whose label
  file has one label, read without a target transform, it returns no pair either: the
  label is read as an integer, and taking its length raises \<open>TypeError\<close>.
\<close>

theorem getitem_no_pair_counterexample:
  "mode (example_set 0 [1, 1, 7, 7, 2]) \<noteq> ''train_unsup''
   \<and> getitem (example_set 0 [1, 1, 7, 7, 2]) 0 = Inl IndexError
   \<and> getitem (example_set 3 [7]) 0 = Inl TypeError"
proof -
  have "getitem (example_set 0 [1, 1, 7, 7, 2]) 0 = Inl IndexError"
    using getitem_supervised [OF example_set_simps(1-3) refl example_set_simps(4),
        of 0 "[1, 1, 7, 7, 2]" "map Label [1, 1, 7, 7, 2]"]
    by (simp add: label_sequence_def example_set_simps(5) match_lengths_def)
  moreover have "getitem (example_set 3 [7]) 0 = Inl TypeError"
    by (rule getitem_scalar [OF example_set_simps(1-3) refl example_set_simps(4,5)])
  ultimately show ?thesis
    by (simp add: example_set_simps(1))
qed

text \<open>
  Claim C3, amended: for every supervised access where the windowed audio sequence has
  \<open>l0\<close> frames and the targets are a sequence of \<open>l1\<close> labels (the sequence that the
  target transform returns or, without a target transform, the integers of a label file
  that does not hold exactly one), and the audio sequence is not empty (or the label
  sequence is empty too), the returned audio sequence has exactly \<open>l1\<close> frames, the
  first \<open>l1\<close> audio frames when \<open>l0 > l1\<close>, or the \<open>l0\<close> frames followed by
  \<open>l1 - l0\<close> frames of zeros, of the shape of the first frame, when \<open>l0 < l1\<close>; and
  the returned label sequence is exactly the \<open>l1\<close> labels.
\<close>

theorem getitem_match_lengths:
  assumes "mode ds \<noteq> ''train_unsup''"
    and "py_index (entries ds) index = Inr [utt, wav, n, phn, num_phns, txt]"
    and "transform ds = Some f" and "f wav = Inr tensors"
    and "label_file ds phn = Inr ints"
    and "label_sequence ds ints targets"
    and "tensors \<noteq> [] \<or> targets = []"
  shows "\<exists>audio. getitem ds index = Inr (audio, Some targets)
     \<and> length audio = length targets
     \<and> audio =
         (if length targets < length tensors then take (length targets) tensors
          else tensors @ replicate (length targets - length tensors) (zeros_like (hd tensors)))
     \<and> shape (zeros_like (hd tensors)) = shape (hd tensors)
     \<and> elems (zeros_like (hd tensors)) = replicate (length (elems (hd tensors))) 0"
proof -
  have "getitem ds index = match_lengths tensors targets"
    by (rule getitem_supervised [OF assms(1-6)])
  then show ?thesis
    using match_lengths_nonempty [OF assms(7)]
    by (auto simp: zeros_like_def map_replicate_const)
qed

theorem getitem_match_lengths_witness:
  "getitem (example_set 8 [1, 1, 7, 7, 2]) 0 =
     Inr (replicate 5 frame, Some [Label 1, Label 1, Label 7, Label 7, Label 2])
   \<and> getitem (example_set 3 [1, 1, 7, 7, 2]) 0 =
     Inr (replicate 3 frame @ replicate 2 (Tensor [2] [0, 0]),
          Some [Label 1, Label 1, Label 7, Label 7, Label 2])"
proof -
  have l: "label_sequence (example_set l0 [1, 1, 7, 7, 2]) [1, 1, 7, 7, 2]
      [Label 1, Label 1, Label 7, Label 7, Label 2]" for l0
    by (simp add: label_sequence_def example_set_simps(5))
  have "getitem (example_set 8 [1, 1, 7, 7, 2]) 0 =
     Inr (replicate 5 frame, Some [Label 1, Label 1, Label 7, Label 7, Label 2])"
    using getitem_match_lengths [OF example_set_simps(1-3) refl example_set_simps(4) l, of 8]
    by (auto simp: eval_nat_numeral)
  moreover have "getitem (example_set 3 [1, 1, 7, 7, 2]) 0 =
     Inr (replicate 3 frame @ replicate 2 (Tensor [2] [0, 0]),
          Some [Label 1, Label 1, Label 7, Label 7, Label 2])"
    using getitem_match_lengths [OF example_set_simps(1-3) refl example_set_simps(4) l, of 3]
    by (auto simp: zeros_like_def frame_def eval_nat_numeral)
  ultimately show ?thesis by simp
qed

text \<open>
  Claim C10, as stated, has an out-of-bounds access whenever the audio sequence is empty
  and there is a label. For a label file of one label, read without a target transform,
  the access with an empty audio sequence fails with \<open>TypeError\<close>, at the length of
  the targets, before the padding is reached.
\<close>

theorem getitem_single_label_counterexample:
  "mode (example_set 0 [7]) \<noteq> ''train_unsup''
   \<and> transform (example_set 0 [7]) = Some (\<lambda>f. Inr [])
   \<and> label_file (example_set 0 [7]) ''/data/000/fe_03_00030-A.phn'' = Inr [7]
   \<and> getitem (example_set 0 [7]) 0 = Inl TypeError
   \<and> TypeError \<noteq> IndexError"
  using getitem_scalar [OF example_set_simps(1-3) refl example_set_simps(4,5), of 0 7]
  by (simp add: example_set_simps)

text \<open>
  Claim C10, amended: in the supervised modes the padding takes its zero frame from the
  first audio frame. When the targets are a sequence (the sequence that the target
  transform returns or, without a target transform, the integers of a label file that
  does not hold exactly one), the audio transform yields no frame and there is a label,
  the access raises \<open>IndexError\<close> and returns no padded pair; when the audio sequence
  is not empty (or there is no label either) it returns a pair.
\<close>

theorem getitem_empty_audio:
  assumes "mode ds \<noteq> ''train_unsup''"
    and "py_index (entries ds) index = Inr [utt, wav, n, phn, num_phns, txt]"
    and "transform ds = Some f" and "f wav = Inr tensors"
    and "label_file ds phn = Inr ints"
    and "label_sequence ds ints targets"
  shows "(tensors = [] \<and> targets \<noteq> [] \<longrightarrow> getitem ds index = Inl IndexError)
     \<and> (tensors \<noteq> [] \<or> targets = [] \<longrightarrow> (\<exists>audio. getitem ds index = Inr (audio, Some targets)))
     \<and> (\<forall>t0 ts. tensors = t0 # ts \<and> length tensors < length targets \<longrightarrow>
          getitem ds index =
            Inr (tensors @ replicate (length targets - length tensors) (zeros_like t0),
                 Some targets))"
proof -
  have g: "getitem ds index = match_lengths tensors targets"
    by (rule getitem_supervised [OF assms(1-6)])
  show ?thesis
    unfolding g using match_lengths_empty [of targets] match_lengths_nonempty [of tensors targets]
    by auto
qed

theorem getitem_empty_audio_witness:
  "getitem (example_set 0 [1, 1, 7, 7, 2]) 0 = Inl IndexError
   \<and> (\<exists>audio. getitem (example_set 3 [1, 1, 7, 7, 2]) 0 =
         Inr (audio, Some [Label 1, Label 1, Label 7, Label 7, Label 2]))"
proof -
  have l: "label_sequence (example_set l0 [1, 1, 7, 7, 2]) [1, 1, 7, 7, 2]
      [Label 1, Label 1, Label 7, Label 7, Label 2]" for l0
    by (simp add: label_sequence_def example_set_simps(5))
  have "getitem (example_set 0 [1, 1, 7, 7, 2]) 0 = Inl IndexError"
    using getitem_empty_audio [OF example_set_simps(1-3) refl example_set_simps(4) l, of 0]
    by simp
  moreover have "\<exists>audio. getitem (example_set 3 [1, 1, 7, 7, 2]) 0 =
         Inr (audio, Some [Label 1, Label 1, Label 7, Label 7, Label 2])"
    using getitem_empty_audio [OF example_set_simps(1-3) refl example_set_simps(4) l, of 3]
    by simp
  ultimately show ?thesis by simp
qed

text \<open>
  The two steps of \<^verbatim>\<open>_load_manifest\<close> by themselves do what is expected of them:
  the filter keeps the entries whose estimated number of frames is above 100, in order,
  and a sample that \<open>random.sample\<close> returns has the size asked for and takes each
  of its elements from another position of the population.
\<close>

lemma length_sample_pool: "length (sample_pool rnd i pool k) = k"
  by (induction k arbitrary: i pool) (simp_all add: Let_def)

lemma mset_pool_step:
  assumes "j < length pool"
  shows "add_mset (pool ! j) (mset (butlast (pool[j := last pool]))) = mset pool"
proof (cases pool rule: rev_cases)
  case Nil
  with assms show ?thesis by simp
next
  case (snoc xs l)
  show ?thesis
  proof (cases "j = length xs")
    case True
    then show ?thesis by (simp add: snoc)
  next
    case False
    with assms have j: "j < length xs" by (simp add: snoc)
    then have "pool[j := last pool] = xs[j := l] @ [l]"
      by (simp add: snoc list_update_append)
    then have "mset (butlast (pool[j := last pool])) = mset (xs[j := l])"
      by simp
    also have "\<dots> = add_mset l (mset xs - {#xs ! j#})"
      using j by (simp add: mset_update)
    finally show ?thesis
      using j by (simp add: snoc nth_append)
  qed
qed

lemma mset_sample_pool:
  "k \<le> length pool \<Longrightarrow> mset (sample_pool rnd i pool k) \<subseteq># mset pool"
proof (induction k arbitrary: i pool)
  case 0
  then show ?case by simp
next
  case (Suc k)
  let ?j = "rnd i mod length pool"
  let ?pool = "butlast (pool[?j := last pool])"
  have "0 < length pool"
    using Suc.prems by linarith
  then have j: "?j < length pool"
    by (rule mod_less_divisor)
  have "k \<le> length ?pool"
    using Suc.prems by simp
  then have "mset (sample_pool rnd (Suc i) ?pool k) \<subseteq># mset ?pool"
    by (rule Suc.IH)
  then have "add_mset (pool ! ?j) (mset (sample_pool rnd (Suc i) ?pool k))
      \<subseteq># add_mset (pool ! ?j) (mset ?pool)"
    by simp
  then have "add_mset (pool ! ?j) (mset (sample_pool rnd (Suc i) ?pool k)) \<subseteq># mset pool"
    by (simp only: mset_pool_step [OF j])
  then show ?case
    by (simp add: Let_def)
qed

lemma random_sample_sound:
  assumes "random_sample rnd population k = Inr r"
  shows "int (length r) = k \<and> mset r \<subseteq># mset population"
proof -
  have k: "0 \<le> k" "k \<le> int (length population)"
    and r: "r = sample_pool rnd 0 population (nat k)"
    using assms by (simp_all add: random_sample_def split: if_splits)
  have "nat k \<le> length population"
    using k by linarith
  then show ?thesis
    unfolding r using k(1) by (simp add: length_sample_pool mset_sample_pool)
qed


lemma drop_short_keeps:
  assumes "drop_short p es = Inr r"
  shows "r = filter (\<lambda>e. \<exists>f. entry_frames_est p e = Inr f \<and> 100 < f) es"
  using assms
proof (induction es arbitrary: r)
  case Nil
  then show ?case by simp
next
  case (Cons e es)
  obtain f where f: "entry_frames_est p e = Inr f"
    using Cons.prems by (cases "entry_frames_est p e") simp_all
  obtain rest where rest: "drop_short p es = Inr rest"
    using Cons.prems f by (cases "drop_short p es") simp_all
  have r: "r = (if 100 < f then e # rest else rest)"
    using Cons.prems f rest by simp
  show ?case
    unfolding r Cons.IH [OF rest] by (simp add: f)
qed

text \<open>
  The sample size of \<^verbatim>\<open>_load_manifest\<close> is bounded by the number of lines of the
  manifest file, not by the number of entries that are left after the short ones are
  dropped. When an entry was dropped, and no smaller maximum is given, the sample is
  larger than the population.
\<close>

lemma random_sample_too_large:
  "int (length population) < k \<Longrightarrow> random_sample rnd population k = Inl ValueError"
  by (simp add: random_sample_def)

lemma load_manifest_size_error:
  assumes "drop_short p (map (\<lambda>x. split_sep (CHR '','') (strip x)) lines) = Inr es"
    and "length es < length lines"
    and "data_size = None \<or> (\<exists>d. data_size = Some d \<and> int (length es) < d)"
  shows "load_manifest p rnd m data_size (Some lines) = Inl ValueError"
  using assms by (auto simp: load_manifest_def random_sample_def Let_def)

text \<open>
  Claim C5 has the view keep all filtered records when no maximum is given, or when the
  maximum is not below their number. For a manifest with one utterance of 228 frames and
  one of 41 frames, the filter keeps the first, and the load then raises
  \<open>ValueError\<close>, both without a maximum and with a maximum of 2.
\<close>

theorem load_manifest_short_entry_fails:
  "drop_short params_8k (map (\<lambda>x. split_sep (CHR '','') (strip x)) example_manifest) =
     Inr [[''fe_03_00030-A'', ''/data/000/fe_03_00030-A.wav'', ''20000'',
           ''/data/000/fe_03_00030-A.phn'', ''228'', ''/data/000/fe_03_00030-A.txt'']]
   \<and> load_manifest params_8k rnd ''dev'' None (Some example_manifest) = Inl ValueError
   \<and> load_manifest params_8k rnd ''dev'' (Some 2) (Some example_manifest) = Inl ValueError"
proof -
  have d: "drop_short params_8k (map (\<lambda>x. split_sep (CHR '','') (strip x)) example_manifest) =
     Inr [[''fe_03_00030-A'', ''/data/000/fe_03_00030-A.wav'', ''20000'',
           ''/data/000/fe_03_00030-A.phn'', ''228'', ''/data/000/fe_03_00030-A.txt'']]"
    by code_simp
  have n: "length example_manifest = 2"
    by (simp add: example_manifest_def)
  show ?thesis
    using d load_manifest_size_error [OF d, of None rnd "''dev''"]
      load_manifest_size_error [OF d, of "Some 2" rnd "''dev''"] n
    by simp
qed

section \<open>Properties of the alignment decoding\<close>















end
